theory Spec2Isabelle
  imports Main
begin

section \<open>Client cache: the todo store (frontend/src/store/index.ts)\<close>

text \<open>
  A todo held by the client is a plain JavaScript object. It is modelled as a finite map
  from property names to values; a property that is absent (reads \<open>undefined\<close>) is
  \<open>None\<close>. The object spread \<open>{ ...todo, ...updates }\<close> copies the properties of
  \<open>todo\<close> and then those of \<open>updates\<close>, the later ones winning: this is
  \<open>todo ++ updates\<close> on maps.
\<close>

datatype jsval = JNull | JBool bool | JNum int | JStr string

type_synonym jsobject = "string \<rightharpoonup> jsval"

record TodoState =
  todos :: "jsobject list"
  categories :: "jsobject list"
  isLoading :: bool
  error :: "string option"

definition setTodos :: "jsobject list \<Rightarrow> TodoState \<Rightarrow> TodoState" where
  "setTodos ts state = state\<lparr>todos := ts\<rparr>"

definition addTodo :: "jsobject \<Rightarrow> TodoState \<Rightarrow> TodoState" where
  "addTodo todo state = state\<lparr>todos := todo # todos state\<rparr>"

text \<open>
  \<open>todo.id === id\<close> is strict equality; on the primitive values of \<open>jsval\<close> and on
  \<open>undefined\<close> it is equality of \<open>jsval option\<close>.
\<close>

definition updateTodo :: "jsval option \<Rightarrow> jsobject \<Rightarrow> TodoState \<Rightarrow> TodoState" where
  "updateTodo tid updates state =
     state\<lparr>todos := map (\<lambda>todo. if todo ''id'' = tid then todo ++ updates else todo)
                         (todos state)\<rparr>"

definition removeTodo :: "jsval option \<Rightarrow> TodoState \<Rightarrow> TodoState" where
  "removeTodo tid state = state\<lparr>todos := filter (\<lambda>todo. todo ''id'' \<noteq> tid) (todos state)\<rparr>"

subsection \<open>The listeners of the realtime socket (frontend/src/utils/socket.ts, setupEventListeners)\<close>

definition on_todo_created :: "jsobject \<Rightarrow> TodoState \<Rightarrow> TodoState" where
  "on_todo_created todo state = addTodo todo state"

definition on_todo_updated :: "jsobject \<Rightarrow> TodoState \<Rightarrow> TodoState" where
  "on_todo_updated todo state = updateTodo (todo ''id'') todo state"

definition on_todo_deleted :: "string \<Rightarrow> TodoState \<Rightarrow> TodoState" where
  "on_todo_deleted todoId state = removeTodo (Some (JStr todoId)) state"

section \<open>Client connection: SocketService (frontend/src/utils/socket.ts)\<close>

text \<open>
  The socket.io client object is reduced to what the service reads and does with it: the
  \<open>connected\<close> flag, the credential it was opened with, and the messages handed to
  \<open>emit\<close>, in order.
\<close>

datatype payload = PString string | PObject jsobject

record Socket =
  connected :: bool
  auth_token :: string
  sent :: "(string \<times> payload) list"

record SocketService =
  socket :: "Socket option"
  reconnectAttempts :: nat
  maxReconnectAttempts :: nat

definition new_SocketService :: SocketService where
  "new_SocketService = \<lparr>socket = None, reconnectAttempts = 0, maxReconnectAttempts = 5\<rparr>"

text \<open>\<open>this.socket?.connected\<close>: \<open>undefined\<close> (falsy) on a null socket.\<close>

definition isConnected :: "SocketService \<Rightarrow> bool" where
  "isConnected s = (case socket s of None \<Rightarrow> False | Some k \<Rightarrow> connected k)"

text \<open>
  \<open>connect\<close> reads the token of the auth store; \<open>!token\<close> holds for \<open>null\<close> and for
  the empty string. The new socket is not connected yet.
\<close>

definition connect :: "string option \<Rightarrow> SocketService \<Rightarrow> SocketService" where
  "connect token s =
     (if isConnected s then s
      else case token of
             None \<Rightarrow> s
           | Some t \<Rightarrow>
               if t = [] then s
               else s\<lparr>socket := Some \<lparr>connected = False, auth_token = t, sent = []\<rparr>\<rparr>)"

definition disconnect :: "SocketService \<Rightarrow> SocketService" where
  "disconnect s = (case socket s of None \<Rightarrow> s | Some k \<Rightarrow> s\<lparr>socket := None\<rparr>)"

definition emit :: "string \<Rightarrow> payload \<Rightarrow> SocketService \<Rightarrow> SocketService" where
  "emit ev p s =
     (case socket s of
        None \<Rightarrow> s
      | Some k \<Rightarrow> if connected k then s\<lparr>socket := Some (k\<lparr>sent := sent k @ [(ev, p)]\<rparr>)\<rparr> else s)"

definition joinUserRoom :: "string \<Rightarrow> SocketService \<Rightarrow> SocketService" where
  "joinUserRoom userId s = emit ''join-user-room'' (PString userId) s"

definition joinTeamRoom :: "string \<Rightarrow> SocketService \<Rightarrow> SocketService" where
  "joinTeamRoom teamId s = emit ''join-team-room'' (PString teamId) s"

definition leaveTeamRoom :: "string \<Rightarrow> SocketService \<Rightarrow> SocketService" where
  "leaveTeamRoom teamId s = emit ''leave-team-room'' (PString teamId) s"

definition emitTodoCreated :: "jsobject \<Rightarrow> SocketService \<Rightarrow> SocketService" where
  "emitTodoCreated todo s = emit ''todo-created'' (PObject todo) s"

definition emitTodoUpdated :: "jsobject \<Rightarrow> SocketService \<Rightarrow> SocketService" where
  "emitTodoUpdated todo s = emit ''todo-updated'' (PObject todo) s"

definition emitTodoDeleted :: "string \<Rightarrow> SocketService \<Rightarrow> SocketService" where
  "emitTodoDeleted todoId s = emit ''todo-deleted'' (PString todoId) s"

definition emitCommentAdded :: "jsobject \<Rightarrow> SocketService \<Rightarrow> SocketService" where
  "emitCommentAdded comment s = emit ''comment-added'' (PObject comment) s"

text \<open>
  \<open>handleReconnect\<close> runs on every \<open>connect_error\<close>. It returns the service and the
  delay in milliseconds after which \<open>connect\<close> is scheduled (\<open>setTimeout\<close>), or
  \<open>None\<close> when no retry is scheduled. The counter is incremented before the delay is
  computed from it. The numbers stay far below 2^53, so \<open>Math.pow\<close> and
  \<open>Math.min\<close> are exact.
\<close>

definition handleReconnect :: "SocketService \<Rightarrow> SocketService \<times> nat option" where
  "handleReconnect s =
     (if reconnectAttempts s < maxReconnectAttempts s then
        (let s' = s\<lparr>reconnectAttempts := reconnectAttempts s + 1\<rparr>;
             delay = min (1000 * 2 ^ reconnectAttempts s') 30000
         in (s', Some delay))
      else (s, None))"

text \<open>
  The \<open>connect\<close> listener of the socket: the handshake succeeded, the counter is reset
  and the user room is joined when a user is logged in.
\<close>

definition on_connect :: "string option \<Rightarrow> SocketService \<Rightarrow> SocketService" where
  "on_connect user s =
     (let s' = (case socket s of
                  None \<Rightarrow> s
                | Some k \<Rightarrow> s\<lparr>socket := Some (k\<lparr>connected := True\<rparr>)\<rparr>);
          s'' = s'\<lparr>reconnectAttempts := 0\<rparr>
      in case user of None \<Rightarrow> s'' | Some uid \<Rightarrow> joinUserRoom uid s'')"

text \<open>
  A run of \<open>n\<close> connection attempts that all fail: each \<open>connect_error\<close> calls
  \<open>handleReconnect\<close>, whose timer calls \<open>connect\<close> again (which leaves the counter
  alone). The result lists what each call scheduled.
\<close>

fun connect_errors :: "nat \<Rightarrow> string option \<Rightarrow> SocketService \<Rightarrow> nat option list" where
  "connect_errors 0 token s = []"
| "connect_errors (Suc n) token s =
     (case handleReconnect s of
        (s', None) \<Rightarrow> None # connect_errors n token s'
      | (s', Some d) \<Rightarrow> Some d # connect_errors n token (connect token s'))"

section \<open>Realtime server: the connection handler (backend/src/index.ts)\<close>

text \<open>
  The server keeps no state of its own: the connected sockets and the room table are
  socket.io's. They are modelled as socket.io documents them. A connecting client gets a
  fresh socket with an identifier of its own; \<open>socket.join(room)\<close> adds the socket to
  the set of members of the room (a set, so joining twice changes nothing);
  \<open>socket.broadcast.emit(ev, data)\<close> sends the event to every connected socket except
  the sender; a disconnecting socket leaves the connected sockets and every room. (The room
  that socket.io names after each socket's own identifier plays no part here.) No
  middleware is registered with \<open>io.use\<close>, so every handshake reaches the
  \<open>connection\<close> listener, which does not read \<open>socket.handshake\<close>.
  \<open>delivered\<close> logs, in order, each message sent to a client: the receiving socket,
  the event name and the data.
\<close>

type_synonym sid = nat

record handshake =
  hs_token :: "string option"

record server =
  next_sid :: sid
  sockets :: "sid list"
  rooms :: "string \<Rightarrow> sid set"
  delivered :: "(sid \<times> string \<times> payload) list"

definition new_server :: server where
  "new_server = \<lparr>next_sid = 0, sockets = [], rooms = (\<lambda>r. {}), delivered = []\<rparr>"

definition on_connection :: "handshake \<Rightarrow> server \<Rightarrow> server" where
  "on_connection hs st =
     st\<lparr>next_sid := Suc (next_sid st), sockets := sockets st @ [next_sid st]\<rparr>"

definition socket_join :: "sid \<Rightarrow> string \<Rightarrow> server \<Rightarrow> server" where
  "socket_join s room st = st\<lparr>rooms := (rooms st)(room := insert s (rooms st room))\<rparr>"

definition broadcast_emit :: "sid \<Rightarrow> string \<Rightarrow> payload \<Rightarrow> server \<Rightarrow> server" where
  "broadcast_emit s ev d st =
     st\<lparr>delivered := delivered st @ map (\<lambda>r. (r, ev, d)) (filter (\<lambda>r. r \<noteq> s) (sockets st))\<rparr>"

definition socket_disconnect :: "sid \<Rightarrow> server \<Rightarrow> server" where
  "socket_disconnect s st =
     st\<lparr>sockets := filter (\<lambda>r. r \<noteq> s) (sockets st), rooms := (\<lambda>room. rooms st room - {s})\<rparr>"

text \<open>
  The messages a client can send. The listeners registered per socket are
  \<open>join-user-room\<close>, \<open>join-team-room\<close>, \<open>todo-updated\<close>, \<open>todo-created\<close>,
  \<open>todo-deleted\<close> and \<open>disconnect\<close>; \<open>leave-team-room\<close> and \<open>comment-added\<close>,
  which the client can send, have no listener and are ignored.
\<close>

datatype client_msg =
    JoinUserRoom string
  | JoinTeamRoom string
  | LeaveTeamRoom string
  | TodoUpdated payload
  | TodoCreated payload
  | TodoDeleted payload
  | CommentAdded payload
  | Disconnect

fun on_message :: "sid \<Rightarrow> client_msg \<Rightarrow> server \<Rightarrow> server" where
  "on_message s (JoinUserRoom userId) st = socket_join s (''user-'' @ userId) st"
| "on_message s (JoinTeamRoom teamId) st = socket_join s (''team-'' @ teamId) st"
| "on_message s (TodoUpdated d) st = broadcast_emit s ''todo-updated'' d st"
| "on_message s (TodoCreated d) st = broadcast_emit s ''todo-created'' d st"
| "on_message s (TodoDeleted d) st = broadcast_emit s ''todo-deleted'' d st"
| "on_message s Disconnect st = socket_disconnect s st"
| "on_message s (LeaveTeamRoom teamId) st = st"
| "on_message s (CommentAdded d) st = st"

text \<open>
  What the transport hands to the server: a new connection with its handshake, or a
  message from a socket. Only a connected socket has listeners.
\<close>

datatype transport_event = Connection handshake | Message sid client_msg

fun server_step :: "transport_event \<Rightarrow> server \<Rightarrow> server" where
  "server_step (Connection hs) st = on_connection hs st"
| "server_step (Message s m) st = (if s \<in> set (sockets st) then on_message s m st else st)"

fun server_run :: "transport_event list \<Rightarrow> server \<Rightarrow> server" where
  "server_run [] st = st"
| "server_run (e # es) st = server_run es (server_step e st)"

definition deliveries_to :: "sid \<Rightarrow> string \<Rightarrow> payload \<Rightarrow> server \<Rightarrow> nat" where
  "deliveries_to x ev d st = length (filter (\<lambda>m. m = (x, ev, d)) (delivered st))"

section \<open>Mutation routes (backend/src/routes/todos.ts)\<close>

subsection \<open>Storage\<close>

text \<open>
  The routes reach storage through the Prisma client only. The tables are modelled as lists
  of rows, and each Prisma call the routes make as a function on the database that returns
  an error (the call throws) or the written row and the new database. The Prisma schema is
  not among the sources. The model takes from the routes themselves that a todo has
  category links (\<open>todoCategory\<close> rows naming a todo and a category, read back through
  the relation \<open>category\<close>), subtasks and comments, and that a link must name an
  existing category (the relation's foreign key). A write with nested writes, such as
  \<open>todo.create\<close> with \<open>categories: { create: [...] }\<close>, is one call and is applied
  entirely or not at all. Time stamps are left out, and a new subtask is stored as not
  completed, which the subtask route leaves to the column's default.

  A due date reaches storage as a JavaScript \<open>Date\<close>: \<open>new Date(dueDate)\<close> is a
  date with a time value in milliseconds, or the Invalid Date when the string cannot be
  parsed. Prisma refuses a write whose date argument is the Invalid Date (the call throws).
\<close>

datatype js_date = Date int | InvalidDate

record todo_row =
  todo_id :: string
  title :: string
  description :: "string option"
  priority :: string
  status :: string
  dueDate :: "js_date option"
  userId :: string

record category_row =
  category_id :: string
  category_name :: string
  category_userId :: string

record subtask_row =
  subtask_id :: string
  subtask_title :: string
  completed :: bool
  subtask_todoId :: string

record comment_row =
  comment_id :: string
  content :: string
  comment_todoId :: string
  comment_userId :: string

record database =
  todo_table :: "todo_row list"
  category_table :: "category_row list"
  todoCategory_table :: "(string \<times> string) list"
  subtask_table :: "subtask_row list"
  comment_table :: "comment_row list"

datatype prisma_error =
    InvalidArgument
  | UniqueConstraintViolation
  | ForeignKeyViolation
  | RecordNotFound

text \<open>
  Modelled from the spec: the default of the \<open>status\<close> column, which the Prisma schema
  (not among the sources) sets; the create route never writes \<open>status\<close>. The spec gives
  "default status TODO".
\<close>

definition schema_default_status :: string where
  "schema_default_status = ''TODO''"

definition categories_exist :: "string list \<Rightarrow> database \<Rightarrow> bool" where
  "categories_exist cats db = list_all (\<lambda>c. c \<in> set (map category_id (category_table db))) cats"

definition todo_findFirst :: "string \<Rightarrow> string \<Rightarrow> database \<Rightarrow> todo_row option" where
  "todo_findFirst tid uid db = find (\<lambda>t. todo_id t = tid \<and> userId t = uid) (todo_table db)"

definition todo_create ::
  "todo_row \<Rightarrow> string list \<Rightarrow> database \<Rightarrow> prisma_error + (todo_row \<times> database)" where
  "todo_create r cats db =
     (if dueDate r = Some InvalidDate then Inl InvalidArgument
      else if todo_id r \<in> set (map todo_id (todo_table db)) then Inl UniqueConstraintViolation
      else if categories_exist cats db then
        Inr (r, db\<lparr>todo_table := todo_table db @ [r],
                    todoCategory_table := todoCategory_table db @ map (\<lambda>c. (todo_id r, c)) cats\<rparr>)
      else Inl ForeignKeyViolation)"

definition todoCategory_deleteMany :: "string \<Rightarrow> database \<Rightarrow> database" where
  "todoCategory_deleteMany tid db =
     db\<lparr>todoCategory_table := filter (\<lambda>l. fst l \<noteq> tid) (todoCategory_table db)\<rparr>"

text \<open>
  \<open>updateData\<close> holds the fields the request gave; \<open>set_dueDate = Some None\<close> writes
  \<open>null\<close>.
\<close>

record todo_update_data =
  set_title :: "string option"
  set_description :: "string option"
  set_priority :: "string option"
  set_status :: "string option"
  set_dueDate :: "js_date option option"

definition apply_update :: "todo_update_data \<Rightarrow> todo_row \<Rightarrow> todo_row" where
  "apply_update u t =
     t\<lparr>title := (case set_title u of None \<Rightarrow> title t | Some v \<Rightarrow> v),
       description := (case set_description u of None \<Rightarrow> description t | Some v \<Rightarrow> Some v),
       priority := (case set_priority u of None \<Rightarrow> priority t | Some v \<Rightarrow> v),
       status := (case set_status u of None \<Rightarrow> status t | Some v \<Rightarrow> v),
       dueDate := (case set_dueDate u of None \<Rightarrow> dueDate t | Some v \<Rightarrow> v)\<rparr>"

definition todo_update ::
  "string \<Rightarrow> todo_update_data \<Rightarrow> string list \<Rightarrow> database
     \<Rightarrow> prisma_error + (todo_row \<times> database)" where
  "todo_update tid u cats db =
     (if set_dueDate u = Some (Some InvalidDate) then Inl InvalidArgument
      else case find (\<lambda>t. todo_id t = tid) (todo_table db) of
        None \<Rightarrow> Inl RecordNotFound
      | Some t \<Rightarrow>
          if categories_exist cats db then
            Inr (apply_update u t,
                 db\<lparr>todo_table :=
                       map (\<lambda>r. if todo_id r = tid then apply_update u r else r) (todo_table db),
                    todoCategory_table := todoCategory_table db @ map (\<lambda>c. (tid, c)) cats\<rparr>)
          else Inl ForeignKeyViolation)"

text \<open>
  Modelled from the spec: deleting a todo removes its subtasks, comments and category links
  with it ("cascades deletion of subtasks/comments"); the cascade is declared in the Prisma
  schema, which is not among the sources.
\<close>

definition todo_delete :: "string \<Rightarrow> database \<Rightarrow> prisma_error + database" where
  "todo_delete tid db =
     (if tid \<in> set (map todo_id (todo_table db)) then
        Inr (db\<lparr>todo_table := filter (\<lambda>t. todo_id t \<noteq> tid) (todo_table db),
                todoCategory_table := filter (\<lambda>l. fst l \<noteq> tid) (todoCategory_table db),
                subtask_table := filter (\<lambda>x. subtask_todoId x \<noteq> tid) (subtask_table db),
                comment_table := filter (\<lambda>x. comment_todoId x \<noteq> tid) (comment_table db)\<rparr>)
      else Inl RecordNotFound)"

definition subtask_findFirst :: "string \<Rightarrow> string \<Rightarrow> database \<Rightarrow> subtask_row option" where
  "subtask_findFirst sid' uid db =
     find (\<lambda>x. subtask_id x = sid' \<and> todo_findFirst (subtask_todoId x) uid db \<noteq> None)
       (subtask_table db)"

definition subtask_create :: "subtask_row \<Rightarrow> database \<Rightarrow> prisma_error + (subtask_row \<times> database)" where
  "subtask_create x db =
     (if subtask_id x \<in> set (map subtask_id (subtask_table db)) then Inl UniqueConstraintViolation
      else if subtask_todoId x \<in> set (map todo_id (todo_table db)) then
        Inr (x, db\<lparr>subtask_table := subtask_table db @ [x]\<rparr>)
      else Inl ForeignKeyViolation)"

definition subtask_update ::
  "string \<Rightarrow> string option \<Rightarrow> bool option \<Rightarrow> database
     \<Rightarrow> prisma_error + (subtask_row \<times> database)" where
  "subtask_update sid' new_title new_completed db =
     (let upd = (\<lambda>x. x\<lparr>subtask_title := (case new_title of None \<Rightarrow> subtask_title x | Some v \<Rightarrow> v),
                        completed := (case new_completed of None \<Rightarrow> completed x | Some v \<Rightarrow> v)\<rparr>)
      in case find (\<lambda>x. subtask_id x = sid') (subtask_table db) of
           None \<Rightarrow> Inl RecordNotFound
         | Some x \<Rightarrow>
             Inr (upd x,
                  db\<lparr>subtask_table :=
                        map (\<lambda>y. if subtask_id y = sid' then upd y else y) (subtask_table db)\<rparr>))"

definition subtask_delete :: "string \<Rightarrow> database \<Rightarrow> prisma_error + database" where
  "subtask_delete sid' db =
     (if sid' \<in> set (map subtask_id (subtask_table db)) then
        Inr (db\<lparr>subtask_table := filter (\<lambda>x. subtask_id x \<noteq> sid') (subtask_table db)\<rparr>)
      else Inl RecordNotFound)"

definition comment_create :: "comment_row \<Rightarrow> database \<Rightarrow> prisma_error + (comment_row \<times> database)" where
  "comment_create x db =
     (if comment_id x \<in> set (map comment_id (comment_table db)) then Inl UniqueConstraintViolation
      else if comment_todoId x \<in> set (map todo_id (todo_table db)) then
        Inr (x, db\<lparr>comment_table := comment_table db @ [x]\<rparr>)
      else Inl ForeignKeyViolation)"

subsection \<open>Requests and responses\<close>

text \<open>
  The JSON body of a todo request, with the fields the routes read. \<open>None\<close> is a field
  the request does not have. The fields have the types the client's \<open>CreateTodoData\<close>
  and \<open>UpdateTodoData\<close> give them, so \<open>isArray\<close> on \<open>categoryIds\<close> holds.
\<close>

record todo_body =
  b_title :: "string option"
  b_description :: "string option"
  b_priority :: "string option"
  b_status :: "string option"
  b_dueDate :: "string option"
  b_categoryIds :: "string list option"

text \<open>
  A todo as the responses carry it: the row, the categories of its links
  (\<open>todo.categories.map(tc => tc.category)\<close>) and its subtasks.
\<close>

record todo_json =
  todo_fields :: todo_row
  todo_categories :: "category_row list"
  todo_subtasks :: "subtask_row list"

definition include_relations :: "todo_row \<Rightarrow> database \<Rightarrow> todo_json" where
  "include_relations t db =
     \<lparr>todo_fields = t,
      todo_categories =
        concat (map (\<lambda>l. filter (\<lambda>k. category_id k = snd l) (category_table db))
                    (filter (\<lambda>l. fst l = todo_id t) (todoCategory_table db))),
      todo_subtasks = filter (\<lambda>x. subtask_todoId x = todo_id t) (subtask_table db)\<rparr>"

datatype response_data =
    NoData
  | TodoData todo_json
  | SubtaskData subtask_row
  | CommentData comment_row

record response =
  status_code :: nat
  success :: bool
  error_message :: "string option"
  response_data :: response_data

text \<open>
  What a route handler did: the response it sent, the database it left, and the change events
  it emitted into the realtime server, each with its room. The handlers of this file hold no
  reference to the socket server (\<open>io\<close> is created in index.ts and not imported here), so
  both ways of answering leave \<open>emitted\<close> empty.
\<close>

record route_result =
  res :: response
  db_after :: database
  emitted :: "(string \<times> string \<times> payload) list"

definition fail :: "nat \<Rightarrow> string \<Rightarrow> database \<Rightarrow> route_result" where
  "fail code msg db =
     \<lparr>res = \<lparr>status_code = code, success = False, error_message = Some msg,
              response_data = NoData\<rparr>,
      db_after = db, emitted = []\<rparr>"

definition succeed :: "nat \<Rightarrow> response_data \<Rightarrow> database \<Rightarrow> route_result" where
  "succeed code d db =
     \<lparr>res = \<lparr>status_code = code, success = True, error_message = None, response_data = d\<rparr>,
      db_after = db, emitted = []\<rparr>"

subsection \<open>Validation chains (express-validator)\<close>

text \<open>
  \<open>optional()\<close> skips a field that is \<open>undefined\<close>; \<open>notEmpty()\<close> fails on a missing
  field and on the empty string. Each chain yields the name of its field when it fails;
  the route answers 400 when the list of failures is not empty. \<open>isISO8601\<close> is the
  validator library's predicate and is a parameter of the routes, as is \<open>new_Date\<close>,
  the parser behind \<open>new Date(string)\<close>.
\<close>

definition notEmpty :: "string option \<Rightarrow> bool" where
  "notEmpty v = (case v of None \<Rightarrow> False | Some t \<Rightarrow> t \<noteq> [])"

definition optional_field :: "('a \<Rightarrow> bool) \<Rightarrow> 'a option \<Rightarrow> bool" where
  "optional_field ok v = (case v of None \<Rightarrow> True | Some x \<Rightarrow> ok x)"

definition isIn :: "string list \<Rightarrow> string \<Rightarrow> bool" where
  "isIn vs v = (v \<in> set vs)"

definition chain :: "string \<Rightarrow> bool \<Rightarrow> string list" where
  "chain field ok = (if ok then [] else [field])"

definition create_todo_validation :: "(string \<Rightarrow> bool) \<Rightarrow> todo_body \<Rightarrow> string list" where
  "create_todo_validation isISO8601 body =
     chain ''title'' (notEmpty (b_title body))
     @ chain ''priority''
         (optional_field (isIn [''LOW'', ''MEDIUM'', ''HIGH'', ''URGENT'']) (b_priority body))
     @ chain ''dueDate'' (optional_field isISO8601 (b_dueDate body))"

definition update_todo_validation :: "(string \<Rightarrow> bool) \<Rightarrow> todo_body \<Rightarrow> string list" where
  "update_todo_validation isISO8601 body =
     chain ''title'' (optional_field (\<lambda>t. t \<noteq> []) (b_title body))
     @ chain ''priority''
         (optional_field (isIn [''LOW'', ''MEDIUM'', ''HIGH'', ''URGENT'']) (b_priority body))
     @ chain ''status''
         (optional_field (isIn [''TODO'', ''IN_PROGRESS'', ''COMPLETED'', ''CANCELLED''])
            (b_status body))
     @ chain ''dueDate'' (optional_field isISO8601 (b_dueDate body))"

subsection \<open>The route handlers\<close>

text \<open>
  Each handler runs after \<open>authenticate\<close>, which supplies \<open>req.user.id\<close> (\<open>uid\<close>).
  \<open>new_id\<close> is the identifier the storage generates for the row to create.
  \<open>priority || 'MEDIUM'\<close> and \<open>dueDate ? ... : null\<close> test truthiness: a missing field
  and the empty string are falsy.
\<close>

definition create_todo_route ::
  "(string \<Rightarrow> bool) \<Rightarrow> (string \<Rightarrow> js_date) \<Rightarrow> string \<Rightarrow> string \<Rightarrow> todo_body
     \<Rightarrow> database \<Rightarrow> route_result" where
  "create_todo_route isISO8601 new_Date new_id uid body db =
     (if create_todo_validation isISO8601 body \<noteq> [] then fail 400 ''Validation failed'' db
      else
        let todoData =
              \<lparr>todo_id = new_id,
               title = (case b_title body of None \<Rightarrow> [] | Some t \<Rightarrow> t),
               description = b_description body,
               priority = (case b_priority body of
                             None \<Rightarrow> ''MEDIUM''
                           | Some p \<Rightarrow> if p = [] then ''MEDIUM'' else p),
               status = schema_default_status,
               dueDate = (case b_dueDate body of
                            None \<Rightarrow> None
                          | Some d \<Rightarrow> if d = [] then None else Some (new_Date d)),
               userId = uid\<rparr>;
            categoryIds = (case b_categoryIds body of None \<Rightarrow> [] | Some cs \<Rightarrow> cs)
        in case todo_create todoData categoryIds db of
             Inl e \<Rightarrow> fail 500 ''Failed to create todo'' db
           | Inr (todo, db') \<Rightarrow> succeed 201 (TodoData (include_relations todo db')) db')"

definition update_todo_route ::
  "(string \<Rightarrow> bool) \<Rightarrow> (string \<Rightarrow> js_date) \<Rightarrow> string \<Rightarrow> string \<Rightarrow> todo_body
     \<Rightarrow> database \<Rightarrow> route_result" where
  "update_todo_route isISO8601 new_Date uid tid body db =
     (if update_todo_validation isISO8601 body \<noteq> [] then fail 400 ''Validation failed'' db
      else
        case todo_findFirst tid uid db of
          None \<Rightarrow> fail 404 ''Todo not found'' db
        | Some existingTodo \<Rightarrow>
            let updateData =
                  \<lparr>set_title = b_title body,
                   set_description = b_description body,
                   set_priority = b_priority body,
                   set_status = b_status body,
                   set_dueDate = (case b_dueDate body of
                                    None \<Rightarrow> None
                                  | Some d \<Rightarrow>
                                      Some (if d = [] then None else Some (new_Date d)))\<rparr>;
                db1 = (case b_categoryIds body of
                         None \<Rightarrow> db
                       | Some cs \<Rightarrow> todoCategory_deleteMany tid db);
                categoryIds = (case b_categoryIds body of None \<Rightarrow> [] | Some cs \<Rightarrow> cs)
            in case todo_update tid updateData categoryIds db1 of
                 Inl e \<Rightarrow> fail 500 ''Failed to update todo'' db1
               | Inr (updatedTodo, db2) \<Rightarrow>
                   succeed 200 (TodoData (include_relations updatedTodo db2)) db2)"

definition delete_todo_route :: "string \<Rightarrow> string \<Rightarrow> database \<Rightarrow> route_result" where
  "delete_todo_route uid tid db =
     (case todo_findFirst tid uid db of
        None \<Rightarrow> fail 404 ''Todo not found'' db
      | Some existingTodo \<Rightarrow>
          (case todo_delete tid db of
             Inl e \<Rightarrow> fail 500 ''Failed to delete todo'' db
           | Inr db' \<Rightarrow> succeed 200 NoData db'))"

definition create_subtask_route ::
  "string \<Rightarrow> string \<Rightarrow> string \<Rightarrow> string option \<Rightarrow> database \<Rightarrow> route_result" where
  "create_subtask_route new_id uid tid title_field db =
     (if chain ''title'' (notEmpty title_field) \<noteq> [] then fail 400 ''Validation failed'' db
      else
        case todo_findFirst tid uid db of
          None \<Rightarrow> fail 404 ''Todo not found'' db
        | Some todo \<Rightarrow>
            (case subtask_create
                    \<lparr>subtask_id = new_id,
                     subtask_title = (case title_field of None \<Rightarrow> [] | Some t \<Rightarrow> t),
                     completed = False, subtask_todoId = tid\<rparr> db of
               Inl e \<Rightarrow> fail 500 ''Failed to create subtask'' db
             | Inr (subtask, db') \<Rightarrow> succeed 201 (SubtaskData subtask) db'))"

definition update_subtask_route ::
  "string \<Rightarrow> string \<Rightarrow> string option \<Rightarrow> bool option \<Rightarrow> database \<Rightarrow> route_result" where
  "update_subtask_route uid subtaskId title_field completed_field db =
     (if chain ''title'' (optional_field (\<lambda>t. t \<noteq> []) title_field) \<noteq> []
      then fail 400 ''Validation failed'' db
      else
        case subtask_findFirst subtaskId uid db of
          None \<Rightarrow> fail 404 ''Subtask not found'' db
        | Some subtask \<Rightarrow>
            (case subtask_update subtaskId title_field completed_field db of
               Inl e \<Rightarrow> fail 500 ''Failed to update subtask'' db
             | Inr (updatedSubtask, db') \<Rightarrow> succeed 200 (SubtaskData updatedSubtask) db'))"

definition delete_subtask_route :: "string \<Rightarrow> string \<Rightarrow> database \<Rightarrow> route_result" where
  "delete_subtask_route uid subtaskId db =
     (case subtask_findFirst subtaskId uid db of
        None \<Rightarrow> fail 404 ''Subtask not found'' db
      | Some subtask \<Rightarrow>
          (case subtask_delete subtaskId db of
             Inl e \<Rightarrow> fail 500 ''Failed to delete subtask'' db
           | Inr db' \<Rightarrow> succeed 200 NoData db'))"

definition create_comment_route ::
  "string \<Rightarrow> string \<Rightarrow> string \<Rightarrow> string option \<Rightarrow> database \<Rightarrow> route_result" where
  "create_comment_route new_id uid tid content_field db =
     (if chain ''content'' (notEmpty content_field) \<noteq> [] then fail 400 ''Validation failed'' db
      else
        case todo_findFirst tid uid db of
          None \<Rightarrow> fail 404 ''Todo not found'' db
        | Some todo \<Rightarrow>
            (case comment_create
                    \<lparr>comment_id = new_id,
                     content = (case content_field of None \<Rightarrow> [] | Some t \<Rightarrow> t),
                     comment_todoId = tid, comment_userId = uid\<rparr> db of
               Inl e \<Rightarrow> fail 500 ''Failed to add comment'' db
             | Inr (comment, db') \<Rightarrow> succeed 201 (CommentData comment) db'))"

section \<open>Concrete scenarios\<close>

text \<open>Inputs at which the theorems below are evaluated.\<close>

definition ex_todo :: jsobject where
  "ex_todo = [''id'' \<mapsto> JStr ''t1'', ''title'' \<mapsto> JStr ''Buy milk'']"

definition E1_ex :: jsobject where
  "E1_ex = [''id'' \<mapsto> JStr ''t1'', ''title'' \<mapsto> JStr ''Buy milk'',
            ''description'' \<mapsto> JStr ''two litres'']"

definition E2_ex :: jsobject where
  "E2_ex = [''id'' \<mapsto> JStr ''t1'', ''title'' \<mapsto> JStr ''Buy oat milk'']"

definition cache_ex :: TodoState where
  "cache_ex = \<lparr>todos = [ex_todo], categories = [], isLoading = False, error = None\<rparr>"

definition pending_service :: SocketService where
  "pending_service =
     \<lparr>socket = Some \<lparr>connected = False, auth_token = ''jwt'', sent = []\<rparr>,
      reconnectAttempts = 2, maxReconnectAttempts = 5\<rparr>"

definition two_sessions :: "transport_event list" where
  "two_sessions =
     [Connection \<lparr>hs_token = Some ''jwt-of-42''\<rparr>, Connection \<lparr>hs_token = None\<rparr>,
      Message 0 (JoinUserRoom ''42'')]"

definition three_sessions :: "transport_event list" where
  "three_sessions =
     [Connection \<lparr>hs_token = Some ''jwt-of-42''\<rparr>, Connection \<lparr>hs_token = Some ''jwt-of-42''\<rparr>,
      Connection \<lparr>hs_token = Some ''jwt-of-7''\<rparr>,
      Message 0 (JoinUserRoom ''42''), Message 1 (JoinUserRoom ''42''),
      Message 1 (JoinUserRoom ''42'')]"

definition db_ex :: database where
  "db_ex =
     \<lparr>todo_table =
        [\<lparr>todo_id = ''t1'', title = ''Write report'', description = None, priority = ''HIGH'',
          status = ''IN_PROGRESS'', dueDate = None, userId = ''u1''\<rparr>],
      category_table =
        [\<lparr>category_id = ''c1'', category_name = ''Work'', category_userId = ''u1''\<rparr>,
         \<lparr>category_id = ''c2'', category_name = ''Private'', category_userId = ''u2''\<rparr>],
      todoCategory_table = [(''t1'', ''c1'')],
      subtask_table = [],
      comment_table = []\<rparr>"

definition no_fields :: todo_body where
  "no_fields =
     \<lparr>b_title = None, b_description = None, b_priority = None, b_status = None,
      b_dueDate = None, b_categoryIds = None\<rparr>"

definition buy_milk :: todo_body where
  "buy_milk = no_fields\<lparr>b_title := Some ''Buy milk''\<rparr>"

definition any_date :: "string \<Rightarrow> bool" where
  "any_date d = True"

definition date_ex :: "string \<Rightarrow> js_date" where
  "date_ex d = (if d = ''2024-W05'' then InvalidDate else Date 1767225600000)"

definition with_foreign_category :: todo_body where
  "with_foreign_category = buy_milk\<lparr>b_categoryIds := Some [''c2'']\<rparr>"

definition with_missing_category :: todo_body where
  "with_missing_category = no_fields\<lparr>b_categoryIds := Some [''c9'']\<rparr>"

definition full_request :: todo_body where
  "full_request =
     \<lparr>b_title = Some ''Book flights'', b_description = Some ''for the offsite'',
      b_priority = Some ''HIGH'', b_status = None, b_dueDate = Some ''2026-01-01'',
      b_categoryIds = Some [''c1'']\<rparr>"

section \<open>Properties of the client cache\<close>

lemma todos_on_todo_updated:
  "todos (on_todo_updated E st) =
     map (\<lambda>t. if t ''id'' = E ''id'' then t ++ E else t) (todos st)"
  by (simp add: on_todo_updated_def updateTodo_def)

text \<open>
  Claim C4, as amended. The \<open>todo-created\<close> listener always puts the received entity
  at the head of the cached collection, whether or not an entity with the same identifier
  is already cached: \<open>addTodo\<close> makes no lookup, so the collection grows by one on
  every delivery.
\<close>

theorem created_event_inserts_at_head:
  "todos (on_todo_created t st) = t # todos st
   \<and> length (todos (on_todo_created t st)) = Suc (length (todos st))"
  by (simp add: on_todo_created_def addTodo_def)

text \<open>
  Claim C4 as stated fails: delivering a \<open>created\<close> event for an identifier that is
  already cached does not leave the cache unchanged, the entity is then cached twice.
\<close>

theorem created_event_duplicate_counterexample:
  "todos cache_ex = [ex_todo]
   \<and> todos (on_todo_created ex_todo cache_ex) = [ex_todo, ex_todo]
   \<and> todos (on_todo_created ex_todo cache_ex) \<noteq> todos cache_ex"
  by (simp add: on_todo_created_def addTodo_def cache_ex_def)

text \<open>
  Claim C5, as amended. Two \<open>updated\<close> events \<open>E1\<close> then \<open>E2\<close> for a cached entry
  leave it as the entry overlaid with the fields of \<open>E1\<close> and then with those of
  \<open>E2\<close>: every field that \<open>E2\<close> carries has the value of \<open>E2\<close>, a field that
  \<open>E2\<close> lacks keeps the value of \<open>E1\<close> or of the old entry, and the final state is
  the payload of \<open>E2\<close> exactly when \<open>E2\<close> carries every field of the entry and of
  \<open>E1\<close>. Nothing but the order of arrival is consulted.
\<close>

theorem updated_events_merge_fieldwise:
  assumes "E1 ''id'' = E2 ''id''" and "i < length (todos st)"
    and "(todos st ! i) ''id'' = E2 ''id''"
  shows "todos (on_todo_updated E2 (on_todo_updated E1 st)) ! i = (todos st ! i) ++ E1 ++ E2
    \<and> (\<forall>k v. E2 k = Some v \<longrightarrow>
          (todos (on_todo_updated E2 (on_todo_updated E1 st)) ! i) k = Some v)
    \<and> ((todos (on_todo_updated E2 (on_todo_updated E1 st)) ! i = E2)
         = (dom (todos st ! i) \<union> dom E1 \<subseteq> dom E2))"
proof -
  let ?t = "todos st ! i"
  have id1: "(?t ++ E1) ''id'' = E2 ''id''"
    using assms(1,3) by (simp add: map_add_def split: option.splits)
  have first: "todos (on_todo_updated E1 st) ! i = ?t ++ E1"
    using assms by (simp add: todos_on_todo_updated)
  have len: "i < length (todos (on_todo_updated E1 st))"
    using assms(2) by (simp add: todos_on_todo_updated)
  have "todos (on_todo_updated E2 (on_todo_updated E1 st)) ! i =
        (if (todos (on_todo_updated E1 st) ! i) ''id'' = E2 ''id''
         then todos (on_todo_updated E1 st) ! i ++ E2 else todos (on_todo_updated E1 st) ! i)"
    unfolding todos_on_todo_updated[of E2] using len by (simp only: nth_map)
  then have fin: "todos (on_todo_updated E2 (on_todo_updated E1 st)) ! i = ?t ++ E1 ++ E2"
    by (simp add: first id1)
  have over: "\<forall>k v. E2 k = Some v \<longrightarrow> (?t ++ E1 ++ E2) k = Some v"
    by (simp add: map_add_def)
  have eq: "(?t ++ E1 ++ E2 = E2) = (dom ?t \<union> dom E1 \<subseteq> dom E2)"
  proof
    assume h: "?t ++ E1 ++ E2 = E2"
    have "dom (?t ++ E1 ++ E2) = dom ?t \<union> dom E1 \<union> dom E2" by auto
    with h show "dom ?t \<union> dom E1 \<subseteq> dom E2" by auto
  next
    assume h: "dom ?t \<union> dom E1 \<subseteq> dom E2"
    show "?t ++ E1 ++ E2 = E2"
    proof
      fix k
      show "(?t ++ E1 ++ E2) k = E2 k"
      proof (cases "E2 k")
        case None
        then have "k \<notin> dom E2" by auto
        with h have "k \<notin> dom ?t" "k \<notin> dom E1" by auto
        then show ?thesis using None by (auto simp: map_add_def dom_def split: option.splits)
      next
        case (Some v)
        then show ?thesis by (simp add: map_add_def)
      qed
    qed
  qed
  from fin over eq show ?thesis by simp
qed

theorem updated_events_merge_fieldwise_witness:
  "todos (on_todo_updated E2_ex (on_todo_updated E1_ex cache_ex)) ! 0 = ex_todo ++ E1_ex ++ E2_ex
   \<and> (todos (on_todo_updated E2_ex (on_todo_updated E1_ex cache_ex)) ! 0) ''title''
       = Some (JStr ''Buy oat milk'')"
proof -
  have a: "E1_ex ''id'' = E2_ex ''id''" by (simp add: E1_ex_def E2_ex_def)
  have b: "0 < length (todos cache_ex)" by (simp add: cache_ex_def)
  have c: "(todos cache_ex ! 0) ''id'' = E2_ex ''id''"
    by (simp add: cache_ex_def ex_todo_def E2_ex_def)
  have d: "E2_ex ''title'' = Some (JStr ''Buy oat milk'')" by (simp add: E2_ex_def)
  show ?thesis
    using updated_events_merge_fieldwise[of E1_ex E2_ex 0 cache_ex] a b c d
    by (simp add: cache_ex_def)
qed

text \<open>
  Claim C5 as stated fails: after \<open>E1\<close> (which carries a description) and \<open>E2\<close>
  (which carries none) the entry still has the description of \<open>E1\<close>, so it is a merge
  of the two payloads and not the payload of \<open>E2\<close>.
\<close>

theorem updated_events_not_wholesale_counterexample:
  "(todos (on_todo_updated E2_ex (on_todo_updated E1_ex cache_ex)) ! 0) ''description''
      = Some (JStr ''two litres'')
   \<and> E2_ex ''description'' = None
   \<and> todos (on_todo_updated E2_ex (on_todo_updated E1_ex cache_ex)) ! 0 \<noteq> E2_ex"
proof -
  have a: "(todos (on_todo_updated E2_ex (on_todo_updated E1_ex cache_ex)) ! 0) ''description''
      = Some (JStr ''two litres'')"
    by (simp add: on_todo_updated_def updateTodo_def cache_ex_def ex_todo_def E1_ex_def E2_ex_def)
  have b: "E2_ex ''description'' = None" by (simp add: E2_ex_def)
  from a b have "todos (on_todo_updated E2_ex (on_todo_updated E1_ex cache_ex)) ! 0 \<noteq> E2_ex"
    by (metis option.distinct(1))
  with a b show ?thesis by simp
qed

section \<open>Properties of the client connection\<close>

lemma handleReconnect_lt:
  "reconnectAttempts s < maxReconnectAttempts s \<Longrightarrow>
   handleReconnect s = (s\<lparr>reconnectAttempts := Suc (reconnectAttempts s)\<rparr>,
                        Some (min (1000 * 2 ^ Suc (reconnectAttempts s)) 30000))"
  by (simp add: handleReconnect_def Let_def)

lemma handleReconnect_ge:
  "\<not> reconnectAttempts s < maxReconnectAttempts s \<Longrightarrow> handleReconnect s = (s, None)"
  by (simp add: handleReconnect_def)

lemma connect_counters:
  "reconnectAttempts (connect tok s) = reconnectAttempts s
   \<and> maxReconnectAttempts (connect tok s) = maxReconnectAttempts s"
  by (simp add: connect_def split: option.splits)

lemma connect_errors_gen:
  "maxReconnectAttempts s = m \<Longrightarrow> reconnectAttempts s = a \<Longrightarrow>
   connect_errors n tok s =
     map (\<lambda>k. if a + k < m then Some (min (1000 * 2 ^ (a + k + 1)) 30000) else None) [0..<n]"
proof (induction n arbitrary: s a)
  case 0
  then show ?case by simp
next
  case (Suc n)
  show ?case
  proof (cases "a < m")
    case True
    then have h: "handleReconnect s =
        (s\<lparr>reconnectAttempts := Suc a\<rparr>, Some (min (1000 * 2 ^ Suc a) 30000))"
      using Suc.prems by (simp add: handleReconnect_lt)
    let ?s' = "connect tok (s\<lparr>reconnectAttempts := Suc a\<rparr>)"
    have "maxReconnectAttempts ?s' = m" "reconnectAttempts ?s' = Suc a"
      using Suc.prems by (simp_all add: connect_counters)
    from Suc.IH[OF this] show ?thesis
      using h True by (simp add: map_upt_Suc del: upt_Suc)
  next
    case False
    then have h: "handleReconnect s = (s, None)"
      using Suc.prems by (simp add: handleReconnect_ge)
    from Suc.IH[OF Suc.prems] show ?thesis
      using h False by (simp add: map_upt_Suc del: upt_Suc)
  qed
qed

text \<open>
  Claim C6, as amended. On each connection error the client schedules a retry; the delay of
  the \<open>k\<close>-th consecutive retry (\<open>k = 1, 2, ...\<close>) is \<open>min (1000 * 2 ^ k) 30000\<close>
  milliseconds, so the successive delays are 2 s, 4 s, 8 s, 16 s and 30 s (doubling, capped
  at 30 s), and after 5 retries nothing more is scheduled.
\<close>

theorem reconnect_backoff_schedule:
  "connect_errors n tok new_SocketService =
     map (\<lambda>k. if k < 5 then Some (min (1000 * 2 ^ (k + 1)) 30000) else None) [0..<n]
   \<and> connect_errors 7 tok new_SocketService =
       [Some 2000, Some 4000, Some 8000, Some 16000, Some 30000, None, None]"
proof -
  have m: "maxReconnectAttempts new_SocketService = 5" "reconnectAttempts new_SocketService = 0"
    by (simp_all add: new_SocketService_def)
  have g: "\<And>n. connect_errors n tok new_SocketService =
     map (\<lambda>k. if k < 5 then Some (min (1000 * 2 ^ (k + 1)) 30000) else None) [0..<n]"
    using connect_errors_gen[OF m] by simp
  have "[0..<7] = [0, 1, 2, 3, 4, 5, 6::nat]" by code_simp
  then have "connect_errors 7 tok new_SocketService =
       [Some 2000, Some 4000, Some 8000, Some 16000, Some 30000, None, None]"
    by (simp add: g)
  with g show ?thesis by blast
qed

text \<open>
  Claim C6 as stated fails: the first delays are 2 s, 4 s, 8 s and not 1 s, 2 s, 4 s.
\<close>

theorem reconnect_first_delay_counterexample:
  "connect_errors 3 (Some ''jwt'') new_SocketService = [Some 2000, Some 4000, Some 8000]
   \<and> connect_errors 3 (Some ''jwt'') new_SocketService \<noteq> [Some 1000, Some 2000, Some 4000]"
proof -
  have m: "maxReconnectAttempts new_SocketService = 5" "reconnectAttempts new_SocketService = 0"
    by (simp_all add: new_SocketService_def)
  have "[0..<3] = [0, 1, 2::nat]" by code_simp
  then have "connect_errors 3 (Some ''jwt'') new_SocketService
      = [Some 2000, Some 4000, Some 8000]"
    by (simp add: connect_errors_gen[OF m])
  then show ?thesis by simp
qed

lemma emit_not_connected: "\<not> isConnected s \<Longrightarrow> emit ev p s = s"
  by (simp add: emit_def isConnected_def split: option.splits)

text \<open>
  Claim C10. While the socket is null or not connected, each of \<open>joinUserRoom\<close>,
  \<open>joinTeamRoom\<close>, \<open>leaveTeamRoom\<close>, \<open>emitTodoCreated\<close>, \<open>emitTodoUpdated\<close>,
  \<open>emitTodoDeleted\<close> and \<open>emitCommentAdded\<close> returns the service as it was: nothing is
  sent and nothing is stored, so a later connection sends exactly what it would have sent
  had the call never been made (the event is dropped, not queued). The operations are total
  functions without an error branch, as the source has no \<open>throw\<close> and guards the null
  socket with \<open>?.\<close>.
\<close>

theorem disconnected_operations_are_noops:
  "\<not> isConnected s \<Longrightarrow>
     joinUserRoom uid s = s \<and> joinTeamRoom teamId s = s \<and> leaveTeamRoom teamId s = s
     \<and> emitTodoCreated todo s = s \<and> emitTodoUpdated todo s = s
     \<and> emitTodoDeleted todoId s = s \<and> emitCommentAdded comment s = s
     \<and> on_connect user (emitTodoCreated todo s) = on_connect user s"
  by (simp add: emit_not_connected joinUserRoom_def joinTeamRoom_def leaveTeamRoom_def
      emitTodoCreated_def emitTodoUpdated_def emitTodoDeleted_def emitCommentAdded_def)

theorem disconnected_operations_are_noops_witness:
  "emitTodoCreated ex_todo pending_service = pending_service
   \<and> emitTodoDeleted ''t1'' pending_service = pending_service
   \<and> joinUserRoom ''u1'' new_SocketService = new_SocketService
   \<and> sent (the (socket (on_connect None (emitTodoCreated ex_todo pending_service)))) = []"
proof -
  have a: "\<not> isConnected pending_service"
    by (simp add: isConnected_def pending_service_def)
  have b: "\<not> isConnected new_SocketService"
    by (simp add: isConnected_def new_SocketService_def)
  have c: "sent (the (socket (on_connect None pending_service))) = []"
    by (simp add: on_connect_def pending_service_def)
  show ?thesis
    using disconnected_operations_are_noops[OF a, of _ _ ex_todo "''t1''" _ None]
      disconnected_operations_are_noops[OF b, of "''u1''"] c
    by simp
qed

section \<open>Properties of the realtime server\<close>

lemma on_message_sockets_subset:
  "set (sockets (on_message s m st)) \<subseteq> set (sockets st)"
  by (cases m) (auto simp: socket_join_def broadcast_emit_def socket_disconnect_def)

lemma on_message_next_sid: "next_sid (on_message s m st) = next_sid st"
  by (cases m) (auto simp: socket_join_def broadcast_emit_def socket_disconnect_def)

lemma on_message_distinct: "distinct (sockets st) \<Longrightarrow> distinct (sockets (on_message s m st))"
  by (cases m) (auto simp: socket_join_def broadcast_emit_def socket_disconnect_def)

lemma on_message_rooms:
  "s \<in> set (sockets st) \<Longrightarrow> \<forall>r. rooms st r \<subseteq> set (sockets st) \<Longrightarrow>
   rooms (on_message s m st) r \<subseteq> set (sockets (on_message s m st))"
  by (cases m) (auto simp: socket_join_def broadcast_emit_def socket_disconnect_def)

lemma server_step_inv:
  assumes "distinct (sockets st)" "\<forall>x\<in>set (sockets st). x < next_sid st"
    "\<forall>r. rooms st r \<subseteq> set (sockets st)"
  shows "distinct (sockets (server_step e st))
    \<and> (\<forall>x\<in>set (sockets (server_step e st)). x < next_sid (server_step e st))
    \<and> (\<forall>r. rooms (server_step e st) r \<subseteq> set (sockets (server_step e st)))"
proof (cases e)
  case (Connection hs)
  with assms show ?thesis by (fastforce simp: on_connection_def)
next
  case (Message s m)
  show ?thesis
  proof (cases "s \<in> set (sockets st)")
    case True
    have "\<forall>x\<in>set (sockets (on_message s m st)). x < next_sid (on_message s m st)"
      using assms(2) on_message_sockets_subset[of s m st] by (auto simp: on_message_next_sid)
    then show ?thesis
      using Message True assms on_message_distinct on_message_rooms by simp
  next
    case False
    with Message assms show ?thesis by simp
  qed
qed

lemma server_run_inv:
  assumes "distinct (sockets st)" "\<forall>x\<in>set (sockets st). x < next_sid st"
    "\<forall>r. rooms st r \<subseteq> set (sockets st)"
  shows "distinct (sockets (server_run es st))
    \<and> (\<forall>r. rooms (server_run es st) r \<subseteq> set (sockets (server_run es st)))"
  using assms
proof (induction es arbitrary: st)
  case Nil
  then show ?case by simp
next
  case (Cons e es)
  from server_step_inv[OF Cons.prems, of e] Cons.IH[of "server_step e st"]
  show ?case by simp
qed

lemma reachable_inv:
  "distinct (sockets (server_run es new_server))
   \<and> (\<forall>r. rooms (server_run es new_server) r \<subseteq> set (sockets (server_run es new_server)))"
  by (rule server_run_inv) (simp_all add: new_server_def)

lemma count_others:
  "distinct xs \<Longrightarrow>
   length (filter (\<lambda>m. m = (x, ev, d)) (map (\<lambda>r. (r, ev, d)) (filter (\<lambda>r. r \<noteq> s) xs)))
     = (if x \<in> set xs \<and> x \<noteq> s then 1 else 0)"
  by (induction xs) auto

lemma broadcast_emit_deliveries:
  "distinct (sockets st) \<Longrightarrow>
   deliveries_to x ev d (broadcast_emit s ev d st) =
     deliveries_to x ev d st + (if x \<in> set (sockets st) \<and> x \<noteq> s then 1 else 0)"
proof -
  assume dist: "distinct (sockets st)"
  have "delivered (broadcast_emit s ev d st) =
        delivered st @ map (\<lambda>r. (r, ev, d)) (filter (\<lambda>r. r \<noteq> s) (sockets st))"
    by (simp add: broadcast_emit_def)
  then show ?thesis
    unfolding deliveries_to_def using count_others[OF dist, of x ev d s]
    by (simp only: filter_append length_append)
qed

text \<open>
  Claim C1, as amended. The relay takes no room and consults no membership. In every state
  the server can reach, a \<open>todo-created\<close>, \<open>todo-updated\<close> or \<open>todo-deleted\<close>
  message from a connected session \<open>s\<close> is delivered exactly once to every other
  connected session, whatever rooms it has joined, and never to \<open>s\<close> itself. In
  particular every member of any room other than \<open>s\<close> receives it once, also when it
  joined that room twice.
\<close>

theorem relay_reaches_every_other_socket:
  assumes "st = server_run evs new_server" and "s \<in> set (sockets st)"
  shows "(\<forall>x. deliveries_to x ''todo-created'' d (server_step (Message s (TodoCreated d)) st)
             = deliveries_to x ''todo-created'' d st
               + (if x \<in> set (sockets st) \<and> x \<noteq> s then 1 else 0))
    \<and> (\<forall>x. deliveries_to x ''todo-updated'' d (server_step (Message s (TodoUpdated d)) st)
             = deliveries_to x ''todo-updated'' d st
               + (if x \<in> set (sockets st) \<and> x \<noteq> s then 1 else 0))
    \<and> (\<forall>x. deliveries_to x ''todo-deleted'' d (server_step (Message s (TodoDeleted d)) st)
             = deliveries_to x ''todo-deleted'' d st
               + (if x \<in> set (sockets st) \<and> x \<noteq> s then 1 else 0))
    \<and> (\<forall>r x. x \<in> rooms st r \<and> x \<noteq> s \<longrightarrow>
          deliveries_to x ''todo-created'' d (server_step (Message s (TodoCreated d)) st)
             = Suc (deliveries_to x ''todo-created'' d st))
    \<and> (\<forall>R. delivered (server_step (Message s (TodoCreated d)) (st\<lparr>rooms := R\<rparr>))
             = delivered (server_step (Message s (TodoCreated d)) st))"
proof -
  have inv: "distinct (sockets st)" "\<forall>r. rooms st r \<subseteq> set (sockets st)"
    using reachable_inv[of evs] assms(1) by simp_all
  have a: "\<And>x ev. deliveries_to x ev d (broadcast_emit s ev d st)
             = deliveries_to x ev d st + (if x \<in> set (sockets st) \<and> x \<noteq> s then 1 else 0)"
    using inv(1) by (rule broadcast_emit_deliveries)
  have b: "\<And>r x. x \<in> rooms st r \<Longrightarrow> x \<in> set (sockets st)"
    using inv(2) by blast
  have c: "\<And>R. delivered (broadcast_emit s ''todo-created'' d (st\<lparr>rooms := R\<rparr>))
             = delivered (broadcast_emit s ''todo-created'' d st)"
    by (simp add: broadcast_emit_def)
  show ?thesis using assms(2) a b c by auto
qed

theorem relay_reaches_every_other_socket_witness:
  "deliveries_to 1 ''todo-created'' (PObject ex_todo)
     (server_step (Message 0 (TodoCreated (PObject ex_todo))) (server_run three_sessions new_server)) = 1
   \<and> deliveries_to 2 ''todo-created'' (PObject ex_todo)
     (server_step (Message 0 (TodoCreated (PObject ex_todo))) (server_run three_sessions new_server)) = 1
   \<and> deliveries_to 0 ''todo-created'' (PObject ex_todo)
     (server_step (Message 0 (TodoCreated (PObject ex_todo))) (server_run three_sessions new_server)) = 0"
proof -
  have s: "sockets (server_run three_sessions new_server) = [0, 1, 2]"
    by (simp add: three_sessions_def new_server_def on_connection_def socket_join_def)
  have d: "delivered (server_run three_sessions new_server) = []"
    by (simp add: three_sessions_def new_server_def on_connection_def socket_join_def)
  have m: "(0::nat) \<in> set (sockets (server_run three_sessions new_server))"
    by (simp add: s)
  show ?thesis
    using relay_reaches_every_other_socket[OF refl m, of "PObject ex_todo"]
    by (simp add: s d deliveries_to_def)
qed

text \<open>
  Claim C1 as stated fails: session 0 has joined room \<open>user-42\<close>, session 1 has
  joined no room, and the event sent by session 0 is delivered to session 1.
\<close>

theorem relay_ignores_rooms_counterexample:
  "rooms (server_run two_sessions new_server) ''user-42'' = {0}
   \<and> 1 \<notin> rooms (server_run two_sessions new_server) ''user-42''
   \<and> delivered (server_step (Message 0 (TodoCreated (PObject ex_todo)))
        (server_run two_sessions new_server)) = [(1, ''todo-created'', PObject ex_todo)]"
  by (simp add: two_sessions_def new_server_def on_connection_def socket_join_def
      broadcast_emit_def)

text \<open>
  Claim C2, evaluated on the code. A connection is admitted whatever its handshake carries,
  also with no credential at all, and the admitted session can join the room of any user.
  The claim asks for such a connection to be refused.
\<close>

theorem connection_admitted_without_credential:
  "next_sid st \<in> set (sockets (server_step (Connection hs) st))
   \<and> next_sid st \<in> rooms (server_run [Connection hs, Message (next_sid st) (JoinUserRoom u)] st)
                        (''user-'' @ u)
   \<and> sockets (server_run [Connection \<lparr>hs_token = None\<rparr>, Message 0 (JoinUserRoom ''42'')]
        new_server) = [0]
   \<and> rooms (server_run [Connection \<lparr>hs_token = None\<rparr>, Message 0 (JoinUserRoom ''42'')]
        new_server) ''user-42'' = {0}"
  by (simp add: new_server_def on_connection_def socket_join_def)

section \<open>Properties of the mutation routes\<close>

lemma emitted_fail: "emitted (fail c m db) = []"
  by (simp add: fail_def)

lemma emitted_succeed: "emitted (succeed c d db) = []"
  by (simp add: succeed_def)

text \<open>
  Claim C3, as amended. No mutation route emits a change event: the routes that create,
  update and delete a todo, and the subtask and comment routes, write to storage and answer
  the request, and emit nothing to any room, whether the mutation succeeds or fails.
\<close>

theorem mutation_routes_emit_nothing:
  "emitted (create_todo_route isISO8601 new_Date new_id uid body db) = []
   \<and> emitted (update_todo_route isISO8601 new_Date uid tid body db) = []
   \<and> emitted (delete_todo_route uid tid db) = []
   \<and> emitted (create_subtask_route new_id uid tid title_field db) = []
   \<and> emitted (update_subtask_route uid subtaskId title_field completed_field db) = []
   \<and> emitted (delete_subtask_route uid subtaskId db) = []
   \<and> emitted (create_comment_route new_id uid tid content_field db) = []"
proof -
  have 1: "emitted (create_todo_route isISO8601 new_Date new_id uid body db) = []"
    by (simp add: create_todo_route_def Let_def emitted_fail emitted_succeed
        split: sum.splits prod.splits)
  have 2: "emitted (update_todo_route isISO8601 new_Date uid tid body db) = []"
    by (simp add: update_todo_route_def Let_def emitted_fail emitted_succeed
        split: option.splits sum.splits prod.splits)
  have 3: "emitted (delete_todo_route uid tid db) = []"
    by (simp add: delete_todo_route_def emitted_fail emitted_succeed
        split: option.splits sum.splits)
  have 4: "emitted (create_subtask_route new_id uid tid title_field db) = []"
    by (simp add: create_subtask_route_def emitted_fail emitted_succeed
        split: option.splits sum.splits prod.splits)
  have 5: "emitted (update_subtask_route uid subtaskId title_field completed_field db) = []"
    by (simp add: update_subtask_route_def emitted_fail emitted_succeed
        split: option.splits sum.splits prod.splits)
  have 6: "emitted (delete_subtask_route uid subtaskId db) = []"
    by (simp add: delete_subtask_route_def emitted_fail emitted_succeed
        split: option.splits sum.splits)
  have 7: "emitted (create_comment_route new_id uid tid content_field db) = []"
    by (simp add: create_comment_route_def emitted_fail emitted_succeed
        split: option.splits sum.splits prod.splits)
  from 1 2 3 4 5 6 7 show ?thesis by simp
qed

lemma buy_milk_valid: "create_todo_validation any_date buy_milk = []"
  by (simp add: create_todo_validation_def buy_milk_def no_fields_def chain_def notEmpty_def
      optional_field_def)

lemma create_buy_milk:
  "create_todo_route any_date date_ex ''t2'' ''u1'' buy_milk db_ex =
     succeed 201
       (TodoData \<lparr>todo_fields =
                    \<lparr>todo_id = ''t2'', title = ''Buy milk'', description = None,
                     priority = ''MEDIUM'', status = ''TODO'', dueDate = None, userId = ''u1''\<rparr>,
                  todo_categories = [], todo_subtasks = []\<rparr>)
       (db_ex\<lparr>todo_table := todo_table db_ex @
                 [\<lparr>todo_id = ''t2'', title = ''Buy milk'', description = None,
                   priority = ''MEDIUM'', status = ''TODO'', dueDate = None, userId = ''u1''\<rparr>]\<rparr>)"
  by (simp add: create_todo_route_def buy_milk_valid)
     (simp add: buy_milk_def no_fields_def db_ex_def todo_create_def categories_exist_def
        schema_default_status_def include_relations_def)

text \<open>
  Claim C3 as stated fails: a create request that succeeds (201, the row is stored) has
  emitted no change event, where the claim asks for exactly one.
\<close>

theorem successful_create_emits_nothing_counterexample:
  "status_code (res (create_todo_route any_date date_ex ''t2'' ''u1'' buy_milk db_ex)) = 201
   \<and> success (res (create_todo_route any_date date_ex ''t2'' ''u1'' buy_milk db_ex))
   \<and> length (todo_table (db_after (create_todo_route any_date date_ex ''t2'' ''u1'' buy_milk db_ex))) = 2
   \<and> emitted (create_todo_route any_date date_ex ''t2'' ''u1'' buy_milk db_ex) = []
   \<and> length (emitted (create_todo_route any_date date_ex ''t2'' ''u1'' buy_milk db_ex)) \<noteq> 1"
  by (simp add: create_buy_milk succeed_def) (simp add: db_ex_def)

lemma create_invalid:
  "create_todo_validation isISO8601 body \<noteq> [] \<Longrightarrow>
   create_todo_route isISO8601 new_Date new_id uid body db = fail 400 ''Validation failed'' db"
  by (simp add: create_todo_route_def)

lemma title_chain: "\<not> notEmpty (b_title body) \<Longrightarrow> create_todo_validation isISO8601 body \<noteq> []"
  by (simp add: create_todo_validation_def chain_def)

lemma create_valid:
  "create_todo_validation isISO8601 body = [] \<Longrightarrow>
   create_todo_route isISO8601 new_Date new_id uid body db =
     (case todo_create
             \<lparr>todo_id = new_id,
              title = (case b_title body of None \<Rightarrow> [] | Some t \<Rightarrow> t),
              description = b_description body,
              priority = (case b_priority body of
                            None \<Rightarrow> ''MEDIUM'' | Some p \<Rightarrow> if p = [] then ''MEDIUM'' else p),
              status = schema_default_status,
              dueDate = (case b_dueDate body of
                           None \<Rightarrow> None | Some d \<Rightarrow> if d = [] then None else Some (new_Date d)),
              userId = uid\<rparr>
             (case b_categoryIds body of None \<Rightarrow> [] | Some cs \<Rightarrow> cs) db of
        Inl e \<Rightarrow> fail 500 ''Failed to create todo'' db
      | Inr (todo, db') \<Rightarrow> succeed 201 (TodoData (include_relations todo db')) db')"
  by (simp add: create_todo_route_def Let_def)

lemma todo_create_Inr:
  "todo_create r cats db = Inr (t, db') \<Longrightarrow>
   t = r \<and> todo_table db' = todo_table db @ [r]
   \<and> todoCategory_table db' = todoCategory_table db @ map (\<lambda>c. (todo_id r, c)) cats"
  by (auto simp: todo_create_def split: if_splits)

lemma valid_title: "create_todo_validation isISO8601 body = [] \<Longrightarrow> \<exists>t. b_title body = Some t \<and> t \<noteq> []"
  by (auto simp: create_todo_validation_def chain_def notEmpty_def split: option.splits if_splits)

lemma valid_priority:
  "create_todo_validation isISO8601 body = [] \<Longrightarrow> b_priority body = Some p \<Longrightarrow> p \<noteq> []"
  by (auto simp: create_todo_validation_def chain_def optional_field_def isIn_def
      split: if_splits)

lemma create_accepted:
  assumes v: "create_todo_validation isISO8601 body = []"
    and f: "new_id \<notin> set (map todo_id (todo_table db))"
    and c: "categories_exist (case b_categoryIds body of None \<Rightarrow> [] | Some cs \<Rightarrow> cs) db"
    and d: "case b_dueDate body of None \<Rightarrow> True | Some d \<Rightarrow> d = [] \<or> new_Date d \<noteq> InvalidDate"
  shows "\<exists>j. res (create_todo_route isISO8601 new_Date new_id uid body db)
               = \<lparr>status_code = 201, success = True, error_message = None,
                  response_data = TodoData j\<rparr>
          \<and> todo_id (todo_fields j) = new_id
          \<and> b_title body = Some (title (todo_fields j))
          \<and> status (todo_fields j) = ''TODO''
          \<and> priority (todo_fields j) = (case b_priority body of None \<Rightarrow> ''MEDIUM'' | Some p \<Rightarrow> p)
          \<and> userId (todo_fields j) = uid
          \<and> todo_table (db_after (create_todo_route isISO8601 new_Date new_id uid body db))
              = todo_table db @ [todo_fields j]"
proof -
  obtain t where t: "b_title body = Some t" using valid_title[OF v] by blast
  have p: "(case b_priority body of None \<Rightarrow> ''MEDIUM'' | Some p \<Rightarrow> if p = [] then ''MEDIUM'' else p)
         = (case b_priority body of None \<Rightarrow> ''MEDIUM'' | Some p \<Rightarrow> p)"
    using valid_priority[OF v] by (auto split: option.splits)
  have dd: "(case b_dueDate body of None \<Rightarrow> None | Some d \<Rightarrow> if d = [] then None else Some (new_Date d))
         \<noteq> Some InvalidDate"
    using d by (auto split: option.splits)
  show ?thesis
    using f c dd t
    by (simp add: create_valid[OF v] todo_create_def succeed_def include_relations_def
        schema_default_status_def p)
qed

lemma create_refused:
  assumes v: "create_todo_validation isISO8601 body = []"
    and n: "\<not> (new_id \<notin> set (map todo_id (todo_table db))
      \<and> categories_exist (case b_categoryIds body of None \<Rightarrow> [] | Some cs \<Rightarrow> cs) db
      \<and> (case b_dueDate body of None \<Rightarrow> True | Some d \<Rightarrow> d = [] \<or> new_Date d \<noteq> InvalidDate))"
  shows "create_todo_route isISO8601 new_Date new_id uid body db
           = fail 500 ''Failed to create todo'' db"
  using n
  by (auto simp: create_valid[OF v] todo_create_def split: option.splits)

text \<open>
  Claim C9. Every create request that passes validation (so its title is not empty), whose
  generated identifier is new, whose categories exist and whose due date, if any, parses,
  is answered with 201 and returns a todo that is stored, with the request's title, status
  \<open>TODO\<close>, and priority \<open>MEDIUM\<close> when the request gives none and the request's
  priority otherwise; a request that passes validation and fails one of the other
  conditions is answered with 500 and creates nothing. Whenever a request with a non-empty
  title is answered with 201, the returned todo has these defaults. A request with a missing
  or empty title is answered with 400 "Validation failed" and leaves the database as it
  was.
\<close>

theorem create_todo_defaults_and_title_check:
  "(create_todo_validation isISO8601 body = []
      \<and> new_id \<notin> set (map todo_id (todo_table db))
      \<and> categories_exist (case b_categoryIds body of None \<Rightarrow> [] | Some cs \<Rightarrow> cs) db
      \<and> (case b_dueDate body of None \<Rightarrow> True | Some d \<Rightarrow> d = [] \<or> new_Date d \<noteq> InvalidDate) \<longrightarrow>
      (\<exists>j. res (create_todo_route isISO8601 new_Date new_id uid body db)
               = \<lparr>status_code = 201, success = True, error_message = None,
                  response_data = TodoData j\<rparr>
          \<and> todo_id (todo_fields j) = new_id
          \<and> b_title body = Some (title (todo_fields j))
          \<and> status (todo_fields j) = ''TODO''
          \<and> priority (todo_fields j) = (case b_priority body of None \<Rightarrow> ''MEDIUM'' | Some p \<Rightarrow> p)
          \<and> userId (todo_fields j) = uid
          \<and> todo_table (db_after (create_todo_route isISO8601 new_Date new_id uid body db))
              = todo_table db @ [todo_fields j]))
   \<and> (create_todo_validation isISO8601 body = []
      \<and> \<not> (new_id \<notin> set (map todo_id (todo_table db))
           \<and> categories_exist (case b_categoryIds body of None \<Rightarrow> [] | Some cs \<Rightarrow> cs) db
           \<and> (case b_dueDate body of
                 None \<Rightarrow> True | Some d \<Rightarrow> d = [] \<or> new_Date d \<noteq> InvalidDate)) \<longrightarrow>
      create_todo_route isISO8601 new_Date new_id uid body db
        = fail 500 ''Failed to create todo'' db)
   \<and> (notEmpty (b_title body)
      \<and> status_code (res (create_todo_route isISO8601 new_Date new_id uid body db)) = 201 \<longrightarrow>
      (\<exists>j. response_data (res (create_todo_route isISO8601 new_Date new_id uid body db)) = TodoData j
           \<and> status (todo_fields j) = ''TODO''
           \<and> (b_priority body = None \<longrightarrow> priority (todo_fields j) = ''MEDIUM'')
           \<and> b_title body = Some (title (todo_fields j))
           \<and> todo_fields j
               \<in> set (todo_table (db_after (create_todo_route isISO8601 new_Date new_id uid body db)))))
   \<and> (notEmpty (b_title body) \<and> b_priority body = None \<and> b_dueDate body = None
      \<and> b_categoryIds body = None \<and> new_id \<notin> set (map todo_id (todo_table db)) \<longrightarrow>
      status_code (res (create_todo_route isISO8601 new_Date new_id uid body db)) = 201)
   \<and> (\<not> notEmpty (b_title body) \<longrightarrow>
      status_code (res (create_todo_route isISO8601 new_Date new_id uid body db)) = 400
      \<and> \<not> success (res (create_todo_route isISO8601 new_Date new_id uid body db))
      \<and> error_message (res (create_todo_route isISO8601 new_Date new_id uid body db))
          = Some ''Validation failed''
      \<and> db_after (create_todo_route isISO8601 new_Date new_id uid body db) = db)"
proof (intro conjI impI)
  let ?r = "create_todo_route isISO8601 new_Date new_id uid body db"
  assume a: "create_todo_validation isISO8601 body = []
      \<and> new_id \<notin> set (map todo_id (todo_table db))
      \<and> categories_exist (case b_categoryIds body of None \<Rightarrow> [] | Some cs \<Rightarrow> cs) db
      \<and> (case b_dueDate body of None \<Rightarrow> True | Some d \<Rightarrow> d = [] \<or> new_Date d \<noteq> InvalidDate)"
  then show "\<exists>j. res ?r = \<lparr>status_code = 201, success = True, error_message = None,
                  response_data = TodoData j\<rparr>
          \<and> todo_id (todo_fields j) = new_id
          \<and> b_title body = Some (title (todo_fields j))
          \<and> status (todo_fields j) = ''TODO''
          \<and> priority (todo_fields j) = (case b_priority body of None \<Rightarrow> ''MEDIUM'' | Some p \<Rightarrow> p)
          \<and> userId (todo_fields j) = uid
          \<and> todo_table (db_after ?r) = todo_table db @ [todo_fields j]"
    using create_accepted[of isISO8601 body new_id db new_Date uid] by blast
next
  assume "create_todo_validation isISO8601 body = []
      \<and> \<not> (new_id \<notin> set (map todo_id (todo_table db))
           \<and> categories_exist (case b_categoryIds body of None \<Rightarrow> [] | Some cs \<Rightarrow> cs) db
           \<and> (case b_dueDate body of
                 None \<Rightarrow> True | Some d \<Rightarrow> d = [] \<or> new_Date d \<noteq> InvalidDate))"
  then show "create_todo_route isISO8601 new_Date new_id uid body db
        = fail 500 ''Failed to create todo'' db"
    using create_refused[of isISO8601 body new_id db new_Date uid] by blast
next
  let ?r = "create_todo_route isISO8601 new_Date new_id uid body db"
  assume a: "notEmpty (b_title body) \<and> status_code (res ?r) = 201"
  then obtain t where t: "b_title body = Some t"
    by (auto simp: notEmpty_def split: option.splits)
  have v: "create_todo_validation isISO8601 body = []"
  proof (rule ccontr)
    assume "create_todo_validation isISO8601 body \<noteq> []"
    then have "status_code (res ?r) = 400" by (simp add: create_invalid fail_def)
    with a show False by simp
  qed
  show "\<exists>j. response_data (res ?r) = TodoData j
           \<and> status (todo_fields j) = ''TODO''
           \<and> (b_priority body = None \<longrightarrow> priority (todo_fields j) = ''MEDIUM'')
           \<and> b_title body = Some (title (todo_fields j))
           \<and> todo_fields j \<in> set (todo_table (db_after ?r))"
    using a t
    by (auto simp: create_valid[OF v] fail_def succeed_def include_relations_def
        schema_default_status_def split: sum.splits dest!: todo_create_Inr)
next
  let ?r = "create_todo_route isISO8601 new_Date new_id uid body db"
  assume a: "notEmpty (b_title body) \<and> b_priority body = None \<and> b_dueDate body = None
      \<and> b_categoryIds body = None \<and> new_id \<notin> set (map todo_id (todo_table db))"
  then have v: "create_todo_validation isISO8601 body = []"
    by (simp add: create_todo_validation_def chain_def optional_field_def)
  show "status_code (res ?r) = 201"
    using a by (simp add: create_valid[OF v] todo_create_def categories_exist_def succeed_def)
next
  let ?r = "create_todo_route isISO8601 new_Date new_id uid body db"
  assume a: "\<not> notEmpty (b_title body)"
  show "status_code (res ?r) = 400" "\<not> success (res ?r)"
    "error_message (res ?r) = Some ''Validation failed''" "db_after ?r = db"
    using create_invalid[OF title_chain[OF a]] by (simp_all add: fail_def)
qed

lemma full_request_valid: "create_todo_validation any_date full_request = []"
  by (simp add: create_todo_validation_def full_request_def chain_def notEmpty_def
      optional_field_def isIn_def any_date_def)

theorem create_todo_defaults_and_title_check_witness:
  "status_code (res (create_todo_route any_date date_ex ''t2'' ''u1'' full_request db_ex)) = 201
   \<and> length (todo_table (db_after (create_todo_route any_date date_ex ''t2'' ''u1'' full_request db_ex)))
       = 2
   \<and> response_data (res (create_todo_route any_date date_ex ''t2'' ''u1'' buy_milk db_ex)) =
     TodoData \<lparr>todo_fields =
                 \<lparr>todo_id = ''t2'', title = ''Buy milk'', description = None,
                  priority = ''MEDIUM'', status = ''TODO'', dueDate = None, userId = ''u1''\<rparr>,
               todo_categories = [], todo_subtasks = []\<rparr>
   \<and> status_code (res (create_todo_route any_date date_ex ''t2'' ''u1'' buy_milk db_ex)) = 201
   \<and> create_todo_route any_date date_ex ''t2'' ''u1'' (full_request\<lparr>b_dueDate := Some ''2024-W05''\<rparr>) db_ex
       = fail 500 ''Failed to create todo'' db_ex
   \<and> status_code (res (create_todo_route any_date date_ex ''t2'' ''u1''
        (buy_milk\<lparr>b_title := Some []\<rparr>) db_ex)) = 400
   \<and> db_after (create_todo_route any_date date_ex ''t2'' ''u1''
        (buy_milk\<lparr>b_title := Some []\<rparr>) db_ex) = db_ex"
proof -
  have f: "''t2'' \<notin> set (map todo_id (todo_table db_ex))" by (simp add: db_ex_def)
  have l: "length (todo_table db_ex) = 1" by (simp add: db_ex_def)
  have e: "categories_exist (case b_categoryIds full_request of None \<Rightarrow> [] | Some cs \<Rightarrow> cs) db_ex"
    by (simp add: full_request_def categories_exist_def db_ex_def)
  have d: "case b_dueDate full_request of
             None \<Rightarrow> True | Some d \<Rightarrow> d = [] \<or> date_ex d \<noteq> InvalidDate"
    by (simp add: full_request_def date_ex_def)
  have a: "notEmpty (b_title buy_milk) \<and> b_priority buy_milk = None \<and> b_dueDate buy_milk = None
      \<and> b_categoryIds buy_milk = None"
    by (simp add: buy_milk_def no_fields_def notEmpty_def)
  have b: "\<not> notEmpty (b_title (buy_milk\<lparr>b_title := Some []\<rparr>))"
    by (simp add: notEmpty_def)
  have c: "response_data (res (create_todo_route any_date date_ex ''t2'' ''u1'' buy_milk db_ex)) =
     TodoData \<lparr>todo_fields =
                 \<lparr>todo_id = ''t2'', title = ''Buy milk'', description = None,
                  priority = ''MEDIUM'', status = ''TODO'', dueDate = None, userId = ''u1''\<rparr>,
               todo_categories = [], todo_subtasks = []\<rparr>"
    by (simp add: create_buy_milk succeed_def)
  have v2: "create_todo_validation any_date (full_request\<lparr>b_dueDate := Some ''2024-W05''\<rparr>) = []"
    by (simp add: create_todo_validation_def full_request_def chain_def notEmpty_def
      optional_field_def isIn_def any_date_def)
  have d2: "\<not> (case b_dueDate (full_request\<lparr>b_dueDate := Some ''2024-W05''\<rparr>) of
             None \<Rightarrow> True | Some d \<Rightarrow> d = [] \<or> date_ex d \<noteq> InvalidDate)"
    by (simp add: date_ex_def)
  note T1 = create_todo_defaults_and_title_check
      [of any_date full_request "''t2''" db_ex date_ex "''u1''"]
  note T2 = create_todo_defaults_and_title_check
      [of any_date buy_milk "''t2''" db_ex date_ex "''u1''"]
  note T3 = create_todo_defaults_and_title_check
      [of any_date "full_request\<lparr>b_dueDate := Some ''2024-W05''\<rparr>" "''t2''" db_ex date_ex "''u1''"]
  note T4 = create_todo_defaults_and_title_check
      [of any_date "buy_milk\<lparr>b_title := Some []\<rparr>" "''t2''" db_ex date_ex "''u1''"]
  obtain j where j:
    "res (create_todo_route any_date date_ex ''t2'' ''u1'' full_request db_ex)
       = \<lparr>status_code = 201, success = True, error_message = None, response_data = TodoData j\<rparr>"
    "todo_table (db_after (create_todo_route any_date date_ex ''t2'' ''u1'' full_request db_ex))
       = todo_table db_ex @ [todo_fields j]"
    using T1[THEN conjunct1, THEN mp, OF conjI[OF full_request_valid conjI[OF f conjI[OF e d]]]]
    by blast
  have 1: "status_code (res (create_todo_route any_date date_ex ''t2'' ''u1'' full_request db_ex)) = 201
     \<and> length (todo_table (db_after (create_todo_route any_date date_ex ''t2'' ''u1'' full_request db_ex))) = 2"
    by (simp add: j l)
  have 2: "status_code (res (create_todo_route any_date date_ex ''t2'' ''u1'' buy_milk db_ex)) = 201"
    using T2[THEN conjunct2, THEN conjunct2, THEN conjunct2, THEN conjunct1, THEN mp] a f
    by blast
  have 3: "create_todo_route any_date date_ex ''t2'' ''u1'' (full_request\<lparr>b_dueDate := Some ''2024-W05''\<rparr>) db_ex
       = fail 500 ''Failed to create todo'' db_ex"
    using T3[THEN conjunct2, THEN conjunct1, THEN mp] v2 d2 by blast
  have 4: "status_code (res (create_todo_route any_date date_ex ''t2'' ''u1''
        (buy_milk\<lparr>b_title := Some []\<rparr>) db_ex)) = 400
   \<and> db_after (create_todo_route any_date date_ex ''t2'' ''u1''
        (buy_milk\<lparr>b_title := Some []\<rparr>) db_ex) = db_ex"
    using T4[THEN conjunct2, THEN conjunct2, THEN conjunct2, THEN conjunct2, THEN mp, OF b]
    by blast
  from 1 2 3 4 c show ?thesis by blast
qed

lemma foreign_valid: "create_todo_validation any_date with_foreign_category = []"
  by (simp add: create_todo_validation_def with_foreign_category_def buy_milk_def no_fields_def
      chain_def notEmpty_def optional_field_def)

text \<open>
  Claim C8, evaluated on the code. User \<open>u1\<close> creates a todo that references category
  \<open>c2\<close>, which belongs to user \<open>u2\<close>. The route maps the identifiers into the
  nested create without looking the categories up: the request is answered with 201, the
  link is stored and the response carries the other user's category. The claim asks for
  the request to fail and for no todo to be created.
\<close>

theorem create_todo_attaches_foreign_category:
  "category_userId \<lparr>category_id = ''c2'', category_name = ''Private'', category_userId = ''u2''\<rparr>
     = ''u2''
   \<and> res (create_todo_route any_date date_ex ''t2'' ''u1'' with_foreign_category db_ex) =
       \<lparr>status_code = 201, success = True, error_message = None,
        response_data = TodoData
          \<lparr>todo_fields =
             \<lparr>todo_id = ''t2'', title = ''Buy milk'', description = None,
              priority = ''MEDIUM'', status = ''TODO'', dueDate = None, userId = ''u1''\<rparr>,
           todo_categories =
             [\<lparr>category_id = ''c2'', category_name = ''Private'', category_userId = ''u2''\<rparr>],
           todo_subtasks = []\<rparr>\<rparr>
   \<and> todoCategory_table (db_after (create_todo_route any_date date_ex ''t2'' ''u1'' with_foreign_category db_ex))
       = [(''t1'', ''c1''), (''t2'', ''c2'')]"
  by (simp add: create_valid[OF foreign_valid])
     (simp add: with_foreign_category_def buy_milk_def no_fields_def db_ex_def todo_create_def
        categories_exist_def schema_default_status_def include_relations_def succeed_def)

lemma missing_valid: "update_todo_validation any_date with_missing_category = []"
  by (simp add: update_todo_validation_def with_missing_category_def no_fields_def
      chain_def optional_field_def)

text \<open>
  Claim C7, evaluated on the code. The owner of todo \<open>t1\<close>, which has category
  \<open>c1\<close>, sends an update whose category list names a category that does not exist.
  The old links are deleted by a call of their own before the update; the update then
  fails, the request is answered with 500, and the todo is left with no category: the old
  association is gone and the new one was not created. The claim asks for the original
  associations to remain intact in that case.
\<close>

theorem update_todo_failed_replacement_loses_categories:
  "todoCategory_table db_ex = [(''t1'', ''c1'')]
   \<and> status_code (res (update_todo_route any_date date_ex ''u1'' ''t1'' with_missing_category db_ex)) = 500
   \<and> error_message (res (update_todo_route any_date date_ex ''u1'' ''t1'' with_missing_category db_ex))
       = Some ''Failed to update todo''
   \<and> todoCategory_table (db_after (update_todo_route any_date date_ex ''u1'' ''t1'' with_missing_category db_ex))
       = []
   \<and> todo_table (db_after (update_todo_route any_date date_ex ''u1'' ''t1'' with_missing_category db_ex))
       = todo_table db_ex"
  by (simp add: update_todo_route_def missing_valid)
     (simp add: with_missing_category_def no_fields_def db_ex_def todo_findFirst_def
        todoCategory_deleteMany_def todo_update_def categories_exist_def fail_def)

end
